theory Spec2Isabelle
  imports Main "HOL-Library.AList"
begin

section \<open>Paths: the parts of Go's path/filepath the file store relies on (Unix)\<close>

text \<open>
  Go strings are byte sequences, and so is \<open>string\<close> here. The service is built for
  Linux (see the Dockerfile), where the only path separator is the slash and a path has
  no volume name.
\<close>

definition IsPathSeparator :: "char \<Rightarrow> bool" where
  "IsPathSeparator c = (c = CHR ''/'')"

text \<open>
  \<open>filepath.Base\<close>: the last element of the path. Trailing slashes are removed before
  the last element is extracted; the empty path gives a dot, a path of slashes only
  gives a single slash.
\<close>

definition Base :: "string \<Rightarrow> string" where
  "Base path =
     (if path = [] then ''.''
      else
        let stripped = rev (dropWhile IsPathSeparator (rev path));
            elem = rev (takeWhile (\<lambda>c. \<not> IsPathSeparator c) (rev stripped))
        in if elem = [] then ''/'' else elem)"

text \<open>The elements of a path between its separators (empty elements included).\<close>

fun elements :: "string \<Rightarrow> string list" where
  "elements [] = [[]]"
| "elements (c # cs) =
     (if IsPathSeparator c then [] # elements cs
      else (case elements cs of
              [] \<Rightarrow> [[c]]
            | e # es \<Rightarrow> (c # e) # es))"

text \<open>
  \<open>filepath.Clean\<close>, element by element: empty elements and dots are dropped, a
  double dot removes the element before it, is dropped at the root, and is kept at the
  front of a relative path.
\<close>

fun cleanElements :: "bool \<Rightarrow> string list \<Rightarrow> string list \<Rightarrow> string list" where
  "cleanElements rooted out [] = out"
| "cleanElements rooted out (e # es) =
     (if e = [] \<or> e = ''.'' then cleanElements rooted out es
      else if e = ''..'' then
        (if out \<noteq> [] \<and> last out \<noteq> ''..'' then cleanElements rooted (butlast out) es
         else if \<not> rooted then cleanElements rooted (out @ [''..'']) es
         else cleanElements rooted out es)
      else cleanElements rooted (out @ [e]) es)"

fun joinElements :: "string list \<Rightarrow> string" where
  "joinElements [] = []"
| "joinElements [e] = e"
| "joinElements (e # es) = e @ ''/'' @ joinElements es"

definition Clean :: "string \<Rightarrow> string" where
  "Clean path =
     (if path = [] then ''.''
      else
        let rooted = IsPathSeparator (hd path);
            out = (if rooted then ''/'' else []) @
                  joinElements (cleanElements rooted [] (elements path))
        in if out = [] then ''.'' else out)"

text \<open>
  \<open>filepath.Join\<close> of two elements: empty elements are ignored, the rest is joined
  with a slash and cleaned; two empty elements give the empty path.
\<close>

definition Join :: "string \<Rightarrow> string \<Rightarrow> string" where
  "Join dir name =
     (if dir \<noteq> [] then Clean (dir @ ''/'' @ name)
      else if name \<noteq> [] then Clean name
      else [])"

section \<open>Filename safety\<close>

text \<open>\<open>SafeFilename\<close> of pkg/monitoring/monitor.go.\<close>

definition SafeFilename :: "string \<Rightarrow> bool" where
  "SafeFilename name =
     (if name = [] \<or> name = ''.'' \<or> name = ''..'' then False
      else Base name = name)"

text \<open>\<open>safeFilename\<close> of main.go.\<close>

definition safeFilename :: "string \<Rightarrow> bool" where
  "safeFilename name =
     (if name = [] \<or> name = ''.'' \<or> name = ''..'' then False
      else if Base name \<noteq> name then False
      else True)"

section \<open>Errors and values\<close>

text \<open>
  The system errors the file store meets, with the messages Go prints for them.
\<close>

datatype errno = ENOENT | EACCES | EISDIR | ENOTEMPTY | EROFS | EIO

fun errno_Error :: "errno \<Rightarrow> string" where
  "errno_Error ENOENT = ''no such file or directory''"
| "errno_Error EACCES = ''permission denied''"
| "errno_Error EISDIR = ''is a directory''"
| "errno_Error ENOTEMPTY = ''directory not empty''"
| "errno_Error EROFS = ''read-only file system''"
| "errno_Error EIO = ''input/output error''"

text \<open>
  A Go \<open>error\<close> value: one made by \<open>errors.New\<close> or \<open>fmt.Errorf\<close> from a message, or
  an \<open>*fs.PathError\<close> (operation, path, system error) as the \<open>os\<close> package returns.
  A nil error is \<open>None\<close> of \<open>error option\<close>.
\<close>

datatype error = errorString string | PathError string string errno

fun Error :: "error \<Rightarrow> string" where
  "Error (errorString s) = s"
| "Error (PathError opn path e) = opn @ '' '' @ path @ '': '' @ errno_Error e"

text \<open>\<open>errors.Is(err, os.ErrNotExist)\<close>.\<close>

fun IsNotExist :: "error \<Rightarrow> bool" where
  "IsNotExist (PathError opn path e) = (e = ENOENT)"
| "IsNotExist (errorString s) = False"

definition ErrProtectedFile :: error where
  "ErrProtectedFile = errorString ''file is protected and cannot be deleted''"

text \<open>
  The values a \<open>Detail\<close> (\<open>map[string]any\<close>) or a \<open>gin.H\<close> holds. A map literal is the
  list of its entries; \<open>Detail option\<close> is a possibly nil \<open>Detail\<close>.
\<close>

datatype any = VNil | VString string | VInt int | VBool bool | VMap "(string \<times> any) list"

type_synonym Detail = "(string \<times> any) list"

text \<open>What a probe returns: \<open>(Detail, error)\<close>, either of which may be nil.\<close>

type_synonym probe_result = "Detail option \<times> error option"

definition detailValue :: "Detail option \<Rightarrow> any" where
  "detailValue d = (case d of None \<Rightarrow> VNil | Some m \<Rightarrow> VMap m)"

text \<open>\<open>errString\<close> of monitor.go and main.go.\<close>

definition errString :: "error option \<Rightarrow> string" where
  "errString err = (case err of None \<Rightarrow> [] | Some e \<Rightarrow> Error e)"

text \<open>Indexing a \<open>map[string]bool\<close>: a missing key reads as false.\<close>

definition index_bool :: "(string \<rightharpoonup> bool) \<Rightarrow> string \<Rightarrow> bool" where
  "index_bool m k = (case m k of None \<Rightarrow> False | Some b \<Rightarrow> b)"

section \<open>The file system\<close>

text \<open>
  The data directory holds regular files: \<open>files\<close> maps a path to the bytes stored
  there. The operating system may refuse a call on a path (a missing or read-only
  directory, a path that names a directory, a failing disk): \<open>fault\<close> gives the error
  it then raises. \<open>calls\<close> records every call made, in order.
\<close>

datatype syscall = SysWrite | SysOpen | SysRead | SysRemove

record filesystem =
  files :: "string \<rightharpoonup> string"
  fault :: "syscall \<Rightarrow> string \<Rightarrow> errno option"
  calls :: "(syscall \<times> string) list"

definition called :: "syscall \<Rightarrow> string \<Rightarrow> filesystem \<Rightarrow> filesystem" where
  "called c p fs = fs\<lparr>calls := calls fs @ [(c, p)]\<rparr>"

text \<open>\<open>os.WriteFile\<close>: creates the file or replaces its content.\<close>

definition os_WriteFile :: "filesystem \<Rightarrow> string \<Rightarrow> string \<Rightarrow> error option \<times> filesystem" where
  "os_WriteFile fs p content =
     (case fault fs SysWrite p of
        Some e \<Rightarrow> (Some (PathError ''open'' p e), called SysWrite p fs)
      | None \<Rightarrow> (None, (called SysWrite p fs)\<lparr>files := (files fs)(p \<mapsto> content)\<rparr>))"

text \<open>
  \<open>os.Open\<close>: a file opened for reading is known by its path and holds the bytes
  stored there.
\<close>

type_synonym File = "string \<times> string"

definition os_Open :: "filesystem \<Rightarrow> string \<Rightarrow> (error + File) \<times> filesystem" where
  "os_Open fs p =
     (case fault fs SysOpen p of
        Some e \<Rightarrow> (Inl (PathError ''open'' p e), called SysOpen p fs)
      | None \<Rightarrow>
          (case files fs p of
             None \<Rightarrow> (Inl (PathError ''open'' p ENOENT), called SysOpen p fs)
           | Some b \<Rightarrow> (Inr (p, b), called SysOpen p fs)))"

text \<open>\<open>io.ReadAll\<close> on an open file.\<close>

definition io_ReadAll :: "filesystem \<Rightarrow> File \<Rightarrow> (error + string) \<times> filesystem" where
  "io_ReadAll fs f =
     (case fault fs SysRead (fst f) of
        Some e \<Rightarrow> (Inl (PathError ''read'' (fst f) e), called SysRead (fst f) fs)
      | None \<Rightarrow> (Inr (snd f), called SysRead (fst f) fs))"

text \<open>\<open>os.ReadFile\<close>: open, then read to the end.\<close>

definition os_ReadFile :: "filesystem \<Rightarrow> string \<Rightarrow> (error + string) \<times> filesystem" where
  "os_ReadFile fs p =
     (case os_Open fs p of
        (Inl err, fs1) \<Rightarrow> (Inl err, fs1)
      | (Inr f, fs1) \<Rightarrow> io_ReadAll fs1 f)"

text \<open>\<open>os.Remove\<close>.\<close>

definition os_Remove :: "filesystem \<Rightarrow> string \<Rightarrow> error option \<times> filesystem" where
  "os_Remove fs p =
     (case fault fs SysRemove p of
        Some e \<Rightarrow> (Some (PathError ''remove'' p e), called SysRemove p fs)
      | None \<Rightarrow>
          (if files fs p = None then (Some (PathError ''remove'' p ENOENT), called SysRemove p fs)
           else (None, (called SysRemove p fs)\<lparr>files := (files fs)(p := None)\<rparr>)))"

section \<open>File management (pkg/monitoring/monitor.go)\<close>

definition ReadFile :: "filesystem \<Rightarrow> string \<Rightarrow> string \<Rightarrow> probe_result \<times> filesystem" where
  "ReadFile fs dir name =
     (if \<not> SafeFilename name then ((None, Some (errorString ''invalid filename'')), fs)
      else
        let p = Join dir name in
        case os_ReadFile fs p of
          (Inl err, fs1) \<Rightarrow> ((None, Some err), fs1)
        | (Inr b, fs1) \<Rightarrow>
            ((Some [(''path'', VString p), (''bytes'', VInt (int (length b))),
                    (''content'', VString b)], None), fs1))"

definition WriteFile :: "filesystem \<Rightarrow> string \<Rightarrow> string \<Rightarrow> string \<Rightarrow> probe_result \<times> filesystem" where
  "WriteFile fs dir name content =
     (if \<not> SafeFilename name then ((None, Some (errorString ''invalid filename'')), fs)
      else
        let p = Join dir name in
        case os_WriteFile fs p content of
          (Some err, fs1) \<Rightarrow> ((None, Some err), fs1)
        | (None, fs1) \<Rightarrow>
            ((Some [(''written'', VString p), (''bytes'', VInt (int (length content)))], None), fs1))"

text \<open>
  The \<open>protected\<close> argument may be a nil map, \<open>None\<close>: the guard
  \<open>protected != nil && protected[name]\<close> is then false.
\<close>

definition DeleteFile ::
  "filesystem \<Rightarrow> string \<Rightarrow> string \<Rightarrow> (string \<rightharpoonup> bool) option \<Rightarrow> probe_result \<times> filesystem" where
  "DeleteFile fs dir name protected =
     (if \<not> SafeFilename name then ((None, Some (errorString ''invalid filename'')), fs)
      else if (case protected of None \<Rightarrow> False | Some m \<Rightarrow> index_bool m name)
        then ((None, Some ErrProtectedFile), fs)
      else
        let p = Join dir name in
        case os_Remove fs p of
          (Some err, fs1) \<Rightarrow> ((None, Some err), fs1)
        | (None, fs1) \<Rightarrow> ((Some [(''deleted'', VString p)], None), fs1))"

text \<open>\<open>protectedFiles\<close> of the monitoring package, and of main.go.\<close>

definition protectedFiles :: "string \<rightharpoonup> bool" where
  "protectedFiles = [''.first-mount.sh'' \<mapsto> True, ''lost+found'' \<mapsto> True]"

definition main_protectedFiles :: "string \<rightharpoonup> bool" where
  "main_protectedFiles = [''.first-mount.sh'' \<mapsto> True, ''lost+found'' \<mapsto> True]"

section \<open>Filesystem self-test\<close>

text \<open>
  \<open>FilesystemSelfTest\<close> of monitor.go; \<open>now\<close> is the formatted timestamp
  \<open>time.Now().UTC().Format(time.RFC3339Nano)\<close>. The deferred \<open>f.Close()\<close> has no
  effect on the stored files.
\<close>

definition FilesystemSelfTest :: "filesystem \<Rightarrow> string \<Rightarrow> string \<Rightarrow> probe_result \<times> filesystem" where
  "FilesystemSelfTest fs now dir =
     (let name = ''selftest-'' @ now @ ''.txt'';
          p = Join dir name;
          content = ''selftest at '' @ now
      in case os_WriteFile fs p content of
           (Some err, fs1) \<Rightarrow>
             ((Some [(''step'', VString ''write''), (''path'', VString p)], Some err), fs1)
         | (None, fs1) \<Rightarrow>
             (case os_Open fs1 p of
                (Inl err, fs2) \<Rightarrow>
                  ((Some [(''step'', VString ''open''), (''path'', VString p)], Some err), fs2)
              | (Inr f, fs2) \<Rightarrow>
                  (case io_ReadAll fs2 f of
                     (Inl err, fs3) \<Rightarrow>
                       ((Some [(''step'', VString ''read''), (''path'', VString p)], Some err), fs3)
                   | (Inr got, fs3) \<Rightarrow>
                       (let match = (got = content);
                            (delErr, fs4) = os_Remove fs3 p
                        in ((Some [(''dir'', VString dir),
                                   (''file'', VString name),
                                   (''writeBytes'', VInt (int (length content))),
                                   (''readBytes'', VInt (int (length got))),
                                   (''match'', VBool match),
                                   (''deleteErr'', VString (errString delErr))], None), fs4)))))"

section \<open>Time\<close>

text \<open>
  A \<open>time.Duration\<close> is an \<open>int64\<close> count of nanoseconds. \<open>time.Since\<close> subtracts two
  readings of the monotonic clock (\<open>int64\<close> nanoseconds) and saturates where the
  difference overflows; \<open>Milliseconds\<close> divides by a million, truncating.
\<close>

definition wrap64 :: "int \<Rightarrow> int" where
  "wrap64 x = (x + 2 ^ 63) mod 2 ^ 64 - 2 ^ 63"

definition maxDuration :: int where
  "maxDuration = 2 ^ 63 - 1"

definition minDuration :: int where
  "minDuration = - (2 ^ 63)"

definition Since :: "int \<Rightarrow> int \<Rightarrow> int" where
  "Since start now =
     (let d = wrap64 (now - start)
      in if d < 0 \<and> now > start then maxDuration
         else if d > 0 \<and> now < start then minDuration
         else d)"

definition quo :: "int \<Rightarrow> int \<Rightarrow> int" where
  "quo a b = (if (a < 0) = (b < 0) then \<bar>a\<bar> div \<bar>b\<bar> else - (\<bar>a\<bar> div \<bar>b\<bar>))"

definition Milliseconds :: "int \<Rightarrow> int" where
  "Milliseconds d = quo d 1000000"

section \<open>The check runner\<close>

text \<open>What a handler writes with \<open>c.JSON\<close>: a status code and a JSON object.\<close>

record response =
  code :: int
  body :: any

definition JSON :: "int \<Rightarrow> (string \<times> any) list \<Rightarrow> response" where
  "JSON c obj = \<lparr>code = c, body = VMap obj\<rparr>"

text \<open>Reading a field of a written object.\<close>

definition field :: "response \<Rightarrow> string \<Rightarrow> any option" where
  "field r k = (case body r of VMap obj \<Rightarrow> map_of obj k | _ \<Rightarrow> None)"

text \<open>
  \<open>handler.run\<close> of the monitoring package. The probe \<open>fn\<close> works on a state of the
  world \<open>s\<close>; \<open>start\<close> is the monotonic clock at \<open>time.Now()\<close>, \<open>finish\<close> the clock at
  \<open>time.Since(start)\<close>. What the deadline \<open>timeout\<close> does to a probe is part of what
  the probe returns.
\<close>

definition run ::
  "string \<Rightarrow> int \<Rightarrow> ('s \<Rightarrow> probe_result \<times> 's) \<Rightarrow> int \<Rightarrow> int \<Rightarrow> 's \<Rightarrow> response \<times> 's" where
  "run name timeout fn start finish s =
     (let ((detail, err), s1) = fn s;
          lat = Milliseconds (Since start finish)
      in case err of
           Some e \<Rightarrow>
             (JSON 503 [(''status'', VString ''error''),
                        (''name'', VString name),
                        (''latencyMs'', VInt lat),
                        (''error'', VString (Error e)),
                        (''detail'', detailValue detail)], s1)
         | None \<Rightarrow>
             (JSON 200 [(''status'', VString ''ok''),
                        (''name'', VString name),
                        (''latencyMs'', VInt lat),
                        (''detail'', detailValue detail)], s1))"

text \<open>\<open>runCheck\<close> of main.go.\<close>

definition runCheck ::
  "string \<Rightarrow> int \<Rightarrow> ('s \<Rightarrow> probe_result \<times> 's) \<Rightarrow> int \<Rightarrow> int \<Rightarrow> 's \<Rightarrow> response \<times> 's" where
  "runCheck name timeout fn start finish s =
     (let ((detail, err), s1) = fn s;
          latency = Milliseconds (Since start finish)
      in case err of
           Some e \<Rightarrow>
             (JSON 503 [(''status'', VString ''error''),
                        (''name'', VString name),
                        (''latencyMs'', VInt latency),
                        (''error'', VString (Error e)),
                        (''detail'', detailValue detail)], s1)
         | None \<Rightarrow>
             (JSON 200 [(''status'', VString ''ok''),
                        (''name'', VString name),
                        (''latencyMs'', VInt latency),
                        (''detail'', detailValue detail)], s1))"

section \<open>Strings: the parts of Go's strings and strconv the handlers rely on\<close>

text \<open>
  The UTF-8 encodings of the runes for which \<open>unicode.IsSpace\<close> holds: tab, line feed,
  vertical tab, form feed, carriage return, space, U+0085, U+00A0, U+1680, U+2000 to
  U+200A, U+2028, U+2029, U+202F, U+205F and U+3000.
\<close>

definition spaces :: "string list" where
  "spaces =
     [[CHR 0x09], [CHR 0x0A], [CHR 0x0B], [CHR 0x0C], [CHR 0x0D], [CHR 0x20],
      [CHR 0xC2, CHR 0x85], [CHR 0xC2, CHR 0xA0],
      [CHR 0xE1, CHR 0x9A, CHR 0x80],
      [CHR 0xE2, CHR 0x80, CHR 0x80], [CHR 0xE2, CHR 0x80, CHR 0x81],
      [CHR 0xE2, CHR 0x80, CHR 0x82], [CHR 0xE2, CHR 0x80, CHR 0x83],
      [CHR 0xE2, CHR 0x80, CHR 0x84], [CHR 0xE2, CHR 0x80, CHR 0x85],
      [CHR 0xE2, CHR 0x80, CHR 0x86], [CHR 0xE2, CHR 0x80, CHR 0x87],
      [CHR 0xE2, CHR 0x80, CHR 0x88], [CHR 0xE2, CHR 0x80, CHR 0x89],
      [CHR 0xE2, CHR 0x80, CHR 0x8A],
      [CHR 0xE2, CHR 0x80, CHR 0xA8], [CHR 0xE2, CHR 0x80, CHR 0xA9],
      [CHR 0xE2, CHR 0x80, CHR 0xAF],
      [CHR 0xE2, CHR 0x81, CHR 0x9F],
      [CHR 0xE3, CHR 0x80, CHR 0x80]]"

text \<open>The width of the white-space rune a string starts with, or ends with; 0 if none.\<close>

definition leadingSpace :: "string \<Rightarrow> nat" where
  "leadingSpace s =
     (case find (\<lambda>e. take (length e) s = e) spaces of
        None \<Rightarrow> 0
      | Some e \<Rightarrow> length e)"

definition trailingSpace :: "string \<Rightarrow> nat" where
  "trailingSpace s =
     (case find (\<lambda>e. length e \<le> length s \<and> drop (length s - length e) s = e) spaces of
        None \<Rightarrow> 0
      | Some e \<Rightarrow> length e)"

function TrimLeftSpace :: "string \<Rightarrow> string" where
  "TrimLeftSpace s =
     (if leadingSpace s = 0 then s else TrimLeftSpace (drop (leadingSpace s) s))"
  by pat_completeness auto
termination
proof (relation "measure length")
  show "wf (measure length)" by simp
next
  fix s :: string
  assume a: "leadingSpace s \<noteq> 0"
  have "s \<noteq> []"
  proof
    assume "s = []"
    then have "leadingSpace s = 0" by (simp add: leadingSpace_def spaces_def)
    with a show False by simp
  qed
  with a show "(drop (leadingSpace s) s, s) \<in> measure length" by simp
qed

declare TrimLeftSpace.simps [simp del]

function TrimRightSpace :: "string \<Rightarrow> string" where
  "TrimRightSpace s =
     (if trailingSpace s = 0 then s
      else TrimRightSpace (take (length s - trailingSpace s) s))"
  by pat_completeness auto
termination
proof (relation "measure length")
  show "wf (measure length)" by simp
next
  fix s :: string
  assume a: "trailingSpace s \<noteq> 0"
  have "s \<noteq> []"
  proof
    assume "s = []"
    then have "trailingSpace s = 0" by (simp add: trailingSpace_def spaces_def)
    with a show False by simp
  qed
  with a show "(take (length s - trailingSpace s) s, s) \<in> measure length" by simp
qed

declare TrimRightSpace.simps [simp del]

text \<open>\<open>strings.TrimSpace\<close>: leading white space is removed, then trailing white space.\<close>

definition TrimSpace :: "string \<Rightarrow> string" where
  "TrimSpace s = TrimRightSpace (TrimLeftSpace s)"

text \<open>
  \<open>strconv.Quote\<close>, which \<open>%q\<close> of \<open>fmt.Sprintf\<close> applies to a string, byte by byte:
  printable ASCII stands for itself, the double quote and the backslash are escaped,
  control characters are written with their short escapes or in hexadecimal. A byte
  from 0x80 on is written in hexadecimal, as Go writes a byte that is not part of a
  valid UTF-8 sequence; runes of several bytes are not decoded. \<open>DataDelete\<close> quotes
  protected names only, which are printable ASCII.
\<close>

definition hexDigit :: "nat \<Rightarrow> char" where
  "hexDigit n = ''0123456789abcdef'' ! (n mod 16)"

definition quoteByte :: "char \<Rightarrow> string" where
  "quoteByte c =
     (let n = (of_char c :: nat) in
      if c = CHR 0x22 \<or> c = CHR 0x5C then [CHR 0x5C, c]
      else if 0x20 \<le> n \<and> n < 0x7F then [c]
      else if c = CHR 0x07 then [CHR 0x5C, CHR ''a'']
      else if c = CHR 0x08 then [CHR 0x5C, CHR ''b'']
      else if c = CHR 0x0C then [CHR 0x5C, CHR ''f'']
      else if c = CHR 0x0A then [CHR 0x5C, CHR ''n'']
      else if c = CHR 0x0D then [CHR 0x5C, CHR ''r'']
      else if c = CHR 0x09 then [CHR 0x5C, CHR ''t'']
      else if c = CHR 0x0B then [CHR 0x5C, CHR ''v'']
      else [CHR 0x5C, CHR ''x'', hexDigit (n div 16), hexDigit n])"

definition Quote :: "string \<Rightarrow> string" where
  "Quote s = [CHR 0x22] @ concat (map quoteByte s) @ [CHR 0x22]"

section \<open>The delete handlers\<close>

text \<open>
  \<open>DataDelete\<close> of the monitoring package. \<open>query\<close> is \<open>c.Query("file")\<close>, \<open>dataDir\<close> is
  \<open>configuration.Config.AppDataDir\<close>, the timeout is 1500 milliseconds.
\<close>

definition DataDelete ::
  "string \<Rightarrow> int \<Rightarrow> int \<Rightarrow> string \<Rightarrow> filesystem \<Rightarrow> response \<times> filesystem" where
  "DataDelete dataDir start finish query fs =
     (let name = TrimSpace query in
      if name = [] then
        (JSON 400 [(''error'', VString (''missing '' @ [CHR 0x27] @ ''file'' @ [CHR 0x27] @ '' query param''))], fs)
      else if index_bool protectedFiles name then
        (JSON 403 [(''error'', VString (Quote name @ '' is protected and cannot be deleted''))], fs)
      else
        run ''data-delete'' 1500000000
          (\<lambda>fs. DeleteFile fs dataDir name (Some protectedFiles)) start finish fs)"

text \<open>The \<open>DELETE /data/\<close> handler of main.go; \<open>query\<close> is \<open>c.Query("file")\<close>.\<close>

definition main_dataDelete :: "string \<Rightarrow> string \<Rightarrow> filesystem \<Rightarrow> response \<times> filesystem" where
  "main_dataDelete dataDir query fs =
     (let name = query in
      if name = [] \<or> \<not> safeFilename name then
        (JSON 400 [(''error'', VString ''missing or invalid file query param'')], fs)
      else if index_bool main_protectedFiles name then
        (JSON 403 [(''error'', VString ''file is protected and cannot be deleted'')], fs)
      else
        let p = Join dataDir name in
        case os_Remove fs p of
          (Some err, fs1) \<Rightarrow> (JSON 500 [(''error'', VString (Error err))], fs1)
        | (None, fs1) \<Rightarrow> (JSON 200 [(''deleted'', VString p)], fs1))"

text \<open>The \<open>POST /data/selftest\<close> handler of main.go.\<close>

definition main_selftest :: "string \<Rightarrow> string \<Rightarrow> filesystem \<Rightarrow> response \<times> filesystem" where
  "main_selftest dataDir now fs =
     (let name = ''selftest-'' @ now @ ''.txt'';
          p = Join dataDir name;
          content = ''selftest at '' @ now
      in case os_WriteFile fs p content of
           (Some err, fs1) \<Rightarrow>
             (JSON 500 [(''step'', VString ''write''), (''error'', VString (Error err)),
                        (''path'', VString p)], fs1)
         | (None, fs1) \<Rightarrow>
             (case os_Open fs1 p of
                (Inl err, fs2) \<Rightarrow>
                  (JSON 500 [(''step'', VString ''open''), (''error'', VString (Error err)),
                             (''path'', VString p)], fs2)
              | (Inr f, fs2) \<Rightarrow>
                  (case io_ReadAll fs2 f of
                     (Inl err, fs3) \<Rightarrow>
                       (JSON 500 [(''step'', VString ''read''), (''error'', VString (Error err)),
                                  (''path'', VString p)], fs3)
                   | (Inr got, fs3) \<Rightarrow>
                       (let ok = (got = content);
                            (delErr, fs4) = os_Remove fs3 p
                        in (JSON 200 [(''dir'', VString dataDir),
                                      (''file'', VString name),
                                      (''writeBytes'', VInt (int (length content))),
                                      (''readBytes'', VInt (int (length got))),
                                      (''match'', VBool ok),
                                      (''deleteErr'', VString (errString delErr))], fs4)))))"

section \<open>External services\<close>

text \<open>
  The network, as one probe sees it: \<open>parses u\<close> says that the URL \<open>u\<close> is one that
  \<open>http.NewRequestWithContext\<close> accepts, \<open>answer u\<close> is what a GET of \<open>u\<close> meets, an
  error of the transport (no connection, deadline passed) or the status code of the
  response.
\<close>

record network =
  parses :: "string \<Rightarrow> bool"
  answer :: "string \<Rightarrow> error + int"

text \<open>
  The request built for a URL is the URL itself; where the URL does not parse, the
  constructor returns a nil request, which is \<open>None\<close>. Its second result, the error,
  is discarded by both callers and left out.
\<close>

definition httpNewRequestWithContext :: "network \<Rightarrow> string \<Rightarrow> string option" where
  "httpNewRequestWithContext net u = (if parses net u then Some u else None)"

text \<open>
  \<open>client.Do\<close>: \<open>http.Client.Do\<close> reads the URL of the request before anything else,
  so that a nil request is a nil pointer dereference: the panic is \<open>None\<close>.
\<close>

definition Do :: "network \<Rightarrow> string option \<Rightarrow> (error + int) option" where
  "Do net req = (case req of None \<Rightarrow> None | Some u \<Rightarrow> Some (answer net u))"

text \<open>
  The loop of \<open>Services\<close> over the URLs, with the variables \<open>results\<close> and \<open>allOK\<close>.
\<close>

fun Services_loop ::
  "network \<Rightarrow> string list \<Rightarrow> (string \<times> any) list \<Rightarrow> bool \<Rightarrow> ((string \<times> any) list \<times> bool) option" where
  "Services_loop net [] results allOK = Some (results, allOK)"
| "Services_loop net (u # us) results allOK =
     (let req = httpNewRequestWithContext net u in
      case Do net req of
        None \<Rightarrow> None
      | Some (Inl err) \<Rightarrow>
          Services_loop net us
            (AList.update u (VMap [(''status'', VString ''error''), (''error'', VString (Error err))]) results)
            False
      | Some (Inr StatusCode) \<Rightarrow>
          (if StatusCode \<ge> 200 \<and> StatusCode < 300 then
             Services_loop net us
               (AList.update u (VMap [(''status'', VString ''ok''), (''code'', VInt StatusCode)]) results)
               allOK
           else
             Services_loop net us
               (AList.update u (VMap [(''status'', VString ''degraded''), (''code'', VInt StatusCode)]) results)
               False))"

text \<open>\<open>Services\<close> of monitor.go; \<open>None\<close> is a panic.\<close>

definition Services :: "network \<Rightarrow> string list \<Rightarrow> probe_result option" where
  "Services net urls =
     (case Services_loop net urls [] True of
        None \<Rightarrow> None
      | Some (results, allOK) \<Rightarrow>
          (if \<not> allOK then
             Some (Some [(''services'', VMap results)],
                   Some (errorString ''one or more services failing''))
           else Some (Some [(''services'', VMap results)], None)))"

text \<open>The probe of the \<open>GET /check/services\<close> handler of main.go: the same loop.\<close>

definition main_servicesCheck :: "network \<Rightarrow> string list \<Rightarrow> probe_result option" where
  "main_servicesCheck net urls =
     (case Services_loop net urls [] True of
        None \<Rightarrow> None
      | Some (results, allOK) \<Rightarrow>
          (if \<not> allOK then
             Some (Some [(''services'', VMap results)],
                   Some (errorString ''one or more services failing''))
           else Some (Some [(''services'', VMap results)], None)))"

text \<open>
  What the loop stores for a URL whose request was sent, and whether the answer keeps
  \<open>allOK\<close>.
\<close>

definition Services_entry :: "error + int \<Rightarrow> any" where
  "Services_entry r =
     (case r of
        Inl err \<Rightarrow> VMap [(''status'', VString ''error''), (''error'', VString (Error err))]
      | Inr c \<Rightarrow>
          if c \<ge> 200 \<and> c < 300 then VMap [(''status'', VString ''ok''), (''code'', VInt c)]
          else VMap [(''status'', VString ''degraded''), (''code'', VInt c)])"

definition answered_2xx :: "network \<Rightarrow> string \<Rightarrow> bool" where
  "answered_2xx net u = (case answer net u of Inl err \<Rightarrow> False | Inr c \<Rightarrow> c \<ge> 200 \<and> c < 300)"

section \<open>Example states\<close>

text \<open>An empty data directory on which every call is served.\<close>

definition fs0 :: filesystem where
  "fs0 = \<lparr>files = Map.empty, fault = (\<lambda>c p. None), calls = []\<rparr>"

text \<open>A data directory that holds one of the protected files.\<close>

definition fs_lost :: filesystem where
  "fs_lost = \<lparr>files = [''/data/lost+found'' \<mapsto> ''keep''], fault = (\<lambda>c p. None), calls = []\<rparr>"

text \<open>A data directory on a read-only file system.\<close>

definition fs_readonly :: filesystem where
  "fs_readonly =
     \<lparr>files = Map.empty, fault = (\<lambda>c p. if c = SysWrite then Some EROFS else None), calls = []\<rparr>"

text \<open>
  A network on which one service answers 200 and every other connection is refused,
  and on which one configured URL, with a space in its host name, does not parse.
\<close>

definition net_bad :: network where
  "net_bad =
     \<lparr>parses = (\<lambda>u. u \<noteq> ''http://bad host''),
      answer = (\<lambda>u. if u = ''http://ok.example'' then Inr 200
                     else Inl (errorString ''connection refused''))\<rparr>"

text \<open>Two probes on a counter: one that succeeds, one that fails with a partial detail.\<close>

definition probe_ok :: "nat \<Rightarrow> probe_result \<times> nat" where
  "probe_ok s = ((Some [(''reachable'', VBool True)], None), Suc s)"

definition probe_down :: "nat \<Rightarrow> probe_result \<times> nat" where
  "probe_down s =
     ((Some [(''mode'', VString ''tcp'')], Some (errorString ''connection refused'')), Suc s)"

section \<open>Properties of the filename check\<close>

lemma Base_no_separator:
  assumes "CHR ''/'' \<notin> set name" and "name \<noteq> []"
  shows "Base name = name"
proof -
  have a: "\<not> IsPathSeparator (hd (rev name))"
    using assms by (simp add: IsPathSeparator_def hd_rev) (metis last_in_set)
  have d: "dropWhile IsPathSeparator (rev name) = rev name"
    using a by (simp add: dropWhile_eq_self_iff)
  have t: "takeWhile (\<lambda>c. \<not> IsPathSeparator c) (rev name) = rev name"
    using assms by (simp add: IsPathSeparator_def) metis
  have "rev name \<noteq> []" using assms by simp
  then show ?thesis using assms by (simp add: Base_def Let_def d t del: rev_is_Nil_conv)
qed

lemma Base_result:
  "Base name = ''.'' \<or> Base name = ''/'' \<or> CHR ''/'' \<notin> set (Base name)"
proof -
  have "CHR ''/'' \<notin> set (takeWhile (\<lambda>c. \<not> IsPathSeparator c) xs)" for xs
    using set_takeWhileD [of "CHR ''/''" "\<lambda>c. \<not> IsPathSeparator c" xs]
    by (auto simp: IsPathSeparator_def)
  then show ?thesis by (simp add: Base_def Let_def)
qed

text \<open>
  The names \<open>SafeFilename\<close> accepts: the non-empty names without a slash other than
  the dot and the double dot, and the name that is a single slash.
\<close>

lemma SafeFilename_iff:
  "SafeFilename name \<longleftrightarrow>
     name \<noteq> [] \<and> name \<noteq> ''.'' \<and> name \<noteq> ''..'' \<and> (CHR ''/'' \<notin> set name \<or> name = ''/'')"
proof (cases "name = [] \<or> name = ''.'' \<or> name = ''..''")
  case True
  then show ?thesis by (auto simp: SafeFilename_def)
next
  case False
  have b: "Base ''/'' = ''/''" by (simp add: Base_def IsPathSeparator_def)
  show ?thesis
  proof (cases "CHR ''/'' \<in> set name")
    case True
    then show ?thesis
      using False Base_result [of name] b by (auto simp: SafeFilename_def)
  next
    case n: False
    then show ?thesis
      using False Base_no_separator [of name] by (auto simp: SafeFilename_def)
  qed
qed

lemma safeFilename_eq: "safeFilename name = SafeFilename name"
  by (simp add: safeFilename_def SafeFilename_def)

text \<open>
  C1 (amended). The empty name, the dot, the double dot, and every name that contains
  a slash and is more than the single slash, are rejected by \<open>SafeFilename\<close> and by
  \<open>safeFilename\<close>.
\<close>

theorem unsafe_names_rejected:
  "name = [] \<or> name = ''.'' \<or> name = ''..'' \<or> (CHR ''/'' \<in> set name \<and> name \<noteq> ''/'')
   \<Longrightarrow> \<not> SafeFilename name \<and> \<not> safeFilename name"
  by (auto simp: safeFilename_eq SafeFilename_iff)

theorem unsafe_names_rejected_witness:
  "(''../etc/passwd'' = [] \<or> ''../etc/passwd'' = ''.'' \<or> ''../etc/passwd'' = ''..''
    \<or> (CHR ''/'' \<in> set ''../etc/passwd'' \<and> ''../etc/passwd'' \<noteq> ''/''))
   \<and> \<not> SafeFilename ''../etc/passwd'' \<and> \<not> safeFilename ''../etc/passwd''"
  using unsafe_names_rejected [of "''../etc/passwd''"] by simp

text \<open>
  C1 as stated fails: a name with two dots in a row inside one path element is
  accepted, and so is the single slash.
\<close>

theorem dotdot_inside_name_accepted:
  "''a..b'' = ''a'' @ ''..'' @ ''b'' \<and> SafeFilename ''a..b'' \<and> safeFilename ''a..b''
   \<and> CHR ''/'' \<in> set ''/'' \<and> SafeFilename ''/'' \<and> safeFilename ''/''"
  by (simp add: safeFilename_def SafeFilename_def Base_def IsPathSeparator_def)

section \<open>Evaluations shared by the proofs\<close>

lemma Join_lost: "Join ''/data'' ''lost+found'' = ''/data/lost+found''"
  by code_simp

lemma Join_selftest: "Join ''/data'' ''selftest-T.txt'' = ''/data/selftest-T.txt''"
  by code_simp

lemma TrimSpace_lost: "TrimSpace ''lost+found'' = ''lost+found''"
  by code_simp

lemma TrimSpace_padded: "TrimSpace '' lost+found  '' = ''lost+found''"
  by code_simp

lemma Quote_lost: "Quote ''lost+found'' = [CHR 0x22] @ ''lost+found'' @ [CHR 0x22]"
  by code_simp

lemma protected_names:
  "index_bool protectedFiles name \<longleftrightarrow> name = ''.first-mount.sh'' \<or> name = ''lost+found''"
  by (auto simp: index_bool_def protectedFiles_def)

lemma main_protected_names:
  "index_bool main_protectedFiles name \<longleftrightarrow> name = ''.first-mount.sh'' \<or> name = ''lost+found''"
  by (auto simp: index_bool_def main_protectedFiles_def)

section \<open>The calls of the os package\<close>

lemma os_WriteFile_ok:
  "fault fs SysWrite p = None \<Longrightarrow>
     os_WriteFile fs p content = (None, (called SysWrite p fs)\<lparr>files := (files fs)(p \<mapsto> content)\<rparr>)"
  by (simp add: os_WriteFile_def)

lemma os_WriteFile_fault:
  "fault fs SysWrite p = Some e \<Longrightarrow>
     os_WriteFile fs p content = (Some (PathError ''open'' p e), called SysWrite p fs)"
  by (simp add: os_WriteFile_def)

lemma os_Open_ok:
  "fault fs SysOpen p = None \<Longrightarrow> files fs p = Some b \<Longrightarrow>
     os_Open fs p = (Inr (p, b), called SysOpen p fs)"
  by (simp add: os_Open_def)

lemma io_ReadAll_ok:
  "fault fs SysRead p = None \<Longrightarrow> io_ReadAll fs (p, b) = (Inr b, called SysRead p fs)"
  by (simp add: io_ReadAll_def)

lemma os_ReadFile_ok:
  "fault fs SysOpen p = None \<Longrightarrow> fault fs SysRead p = None \<Longrightarrow> files fs p = Some b \<Longrightarrow>
     os_ReadFile fs p = (Inr b, called SysRead p (called SysOpen p fs))"
  by (simp add: os_ReadFile_def os_Open_def io_ReadAll_def called_def)

lemma os_ReadFile_missing:
  "fault fs SysOpen p = None \<Longrightarrow> files fs p = None \<Longrightarrow>
     os_ReadFile fs p = (Inl (PathError ''open'' p ENOENT), called SysOpen p fs)"
  by (simp add: os_ReadFile_def os_Open_def)

lemma os_Remove_ok:
  "fault fs SysRemove p = None \<Longrightarrow> files fs p = Some b \<Longrightarrow>
     os_Remove fs p = (None, (called SysRemove p fs)\<lparr>files := (files fs)(p := None)\<rparr>)"
  by (simp add: os_Remove_def)

lemma os_Remove_calls: "calls (snd (os_Remove fs p)) = calls fs @ [(SysRemove, p)]"
  by (simp add: os_Remove_def called_def split: option.splits)

lemma os_Remove_files:
  "fault fs SysRemove p = None \<Longrightarrow> files (snd (os_Remove fs p)) p = None"
  by (simp add: os_Remove_def called_def)

lemma os_Remove_error:
  "fst (os_Remove fs p) = Some err \<Longrightarrow> \<exists>e. err = PathError ''remove'' p e"
  by (auto simp: os_Remove_def split: option.splits if_splits)

section \<open>Properties of the file operations\<close>

text \<open>
  C2. On a name that \<open>SafeFilename\<close> rejects, \<open>ReadFile\<close>, \<open>WriteFile\<close> and \<open>DeleteFile\<close>
  return the error "invalid filename" and leave the file system as it was: no file is
  changed and no call is made.
\<close>

theorem unsafe_name_fails_fast:
  "\<not> SafeFilename name \<Longrightarrow>
     ReadFile fs dir name = ((None, Some (errorString ''invalid filename'')), fs)
   \<and> WriteFile fs dir name content = ((None, Some (errorString ''invalid filename'')), fs)
   \<and> DeleteFile fs dir name protected = ((None, Some (errorString ''invalid filename'')), fs)"
  by (simp add: ReadFile_def WriteFile_def DeleteFile_def)

text \<open>The three operations on a traversal name, in a directory that holds a file.\<close>

theorem unsafe_name_fails_fast_witness:
  "\<not> SafeFilename ''../etc/passwd''
   \<and> ReadFile fs_lost ''/data'' ''../etc/passwd'' =
       ((None, Some (errorString ''invalid filename'')), fs_lost)
   \<and> WriteFile fs_lost ''/data'' ''../etc/passwd'' ''x'' =
       ((None, Some (errorString ''invalid filename'')), fs_lost)
   \<and> DeleteFile fs_lost ''/data'' ''../etc/passwd'' None =
       ((None, Some (errorString ''invalid filename'')), fs_lost)"
proof -
  have h: "\<not> SafeFilename ''../etc/passwd''" by (simp add: SafeFilename_iff)
  show ?thesis using h unsafe_name_fails_fast [OF h] by simp
qed

text \<open>
  C3. For a protected name, \<open>DeleteFile\<close> called with \<open>protectedFiles\<close> returns
  \<open>ErrProtectedFile\<close>, and \<open>DataDelete\<close> answers 403, whatever the directory holds and
  whether or not the file exists; the file system is returned as it was, so that no
  removal was attempted.
\<close>

theorem protected_delete_forbidden:
  assumes "name = ''.first-mount.sh'' \<or> name = ''lost+found''"
  shows "DeleteFile fs dir name (Some protectedFiles) = ((None, Some ErrProtectedFile), fs)
     \<and> (TrimSpace query = name \<longrightarrow>
          DataDelete dataDir start finish query fs =
            (JSON 403 [(''error'', VString (Quote name @ '' is protected and cannot be deleted''))], fs))"
proof -
  have p: "index_bool protectedFiles name"
    using assms by (simp add: protected_names)
  have s: "SafeFilename name"
    using assms by (auto simp: SafeFilename_iff)
  have n: "name \<noteq> []" using assms by auto
  show ?thesis using p s n
    by (simp add: DeleteFile_def DataDelete_def Let_def)
qed

text \<open>Deleting \<open>lost+found\<close> from a directory that does not hold it.\<close>

theorem protected_delete_forbidden_witness:
  "(''lost+found'' = ''.first-mount.sh'' \<or> ''lost+found'' = ''lost+found'')
   \<and> files fs0 (Join ''/data'' ''lost+found'') = None
   \<and> DeleteFile fs0 ''/data'' ''lost+found'' (Some protectedFiles) = ((None, Some ErrProtectedFile), fs0)
   \<and> TrimSpace '' lost+found  '' = ''lost+found''
   \<and> code (fst (DataDelete ''/data'' 0 1 '' lost+found  '' fs0)) = 403
   \<and> snd (DataDelete ''/data'' 0 1 '' lost+found  '' fs0) = fs0"
proof -
  have h: "''lost+found'' = ''.first-mount.sh'' \<or> ''lost+found'' = ''lost+found''" by simp
  show ?thesis
    using protected_delete_forbidden [OF h, of fs0 "''/data''" "'' lost+found  ''" "''/data''" 0 1]
    by (simp add: TrimSpace_padded fs0_def JSON_def)
qed

text \<open>
  C4. For a name that \<open>SafeFilename\<close> accepts and that is not protected, on a file
  system that serves the calls on its path: \<open>WriteFile\<close> succeeds and \<open>ReadFile\<close> then
  returns the bytes written, with their count; \<open>DeleteFile\<close> after the write succeeds
  and \<open>ReadFile\<close> then fails with an error for which \<open>IsNotExist\<close> holds.
\<close>

theorem write_read_roundtrip:
  assumes safe: "SafeFilename name"
    and unprotected: "\<not> index_bool protectedFiles name"
    and w: "fault fs SysWrite (Join dir name) = None"
    and o: "fault fs SysOpen (Join dir name) = None"
    and r: "fault fs SysRead (Join dir name) = None"
    and d: "fault fs SysRemove (Join dir name) = None"
  shows "fst (WriteFile fs dir name content) =
           (Some [(''written'', VString (Join dir name)), (''bytes'', VInt (int (length content)))], None)
     \<and> fst (ReadFile (snd (WriteFile fs dir name content)) dir name) =
           (Some [(''path'', VString (Join dir name)), (''bytes'', VInt (int (length content))),
                  (''content'', VString content)], None)
     \<and> fst (DeleteFile (snd (WriteFile fs dir name content)) dir name (Some protectedFiles)) =
           (Some [(''deleted'', VString (Join dir name))], None)
     \<and> (\<exists>err. fst (ReadFile (snd (DeleteFile (snd (WriteFile fs dir name content)) dir name
                  (Some protectedFiles))) dir name) = (None, Some err) \<and> IsNotExist err)"
proof -
  define p where "p = Join dir name"
  define fs1 where "fs1 = (called SysWrite p fs)\<lparr>files := (files fs)(p \<mapsto> content)\<rparr>"
  define fs2 where "fs2 = (called SysRemove p fs1)\<lparr>files := (files fs1)(p := None)\<rparr>"
  have W: "WriteFile fs dir name content =
             ((Some [(''written'', VString p), (''bytes'', VInt (int (length content)))], None), fs1)"
    using safe w by (simp add: WriteFile_def Let_def os_WriteFile_ok p_def fs1_def)
  have f1: "fault fs1 = fault fs" "files fs1 p = Some content"
    by (simp_all add: called_def fs1_def)
  have R: "ReadFile fs1 dir name =
             ((Some [(''path'', VString p), (''bytes'', VInt (int (length content))),
                     (''content'', VString content)], None), called SysRead p (called SysOpen p fs1))"
    using safe o r f1 os_ReadFile_ok [of fs1 p content]
    by (simp add: ReadFile_def Let_def p_def)
  have D: "DeleteFile fs1 dir name (Some protectedFiles) =
             ((Some [(''deleted'', VString p)], None), fs2)"
    using safe unprotected d f1 os_Remove_ok [of fs1 p content]
    by (simp add: DeleteFile_def Let_def p_def fs2_def)
  have f2: "fault fs2 = fault fs" "files fs2 p = None"
    by (simp_all add: called_def fs2_def f1)
  have R2: "ReadFile fs2 dir name = ((None, Some (PathError ''open'' p ENOENT)), called SysOpen p fs2)"
    using safe o f2 os_ReadFile_missing [of fs2 p]
    by (simp add: ReadFile_def Let_def p_def)
  show ?thesis
    unfolding p_def [symmetric] by (simp add: W R D R2)
qed

text \<open>Five bytes written to \<open>notes.txt\<close>, read back, deleted, and read again.\<close>

theorem write_read_roundtrip_witness:
  "SafeFilename ''notes.txt'' \<and> \<not> index_bool protectedFiles ''notes.txt''
   \<and> fault fs0 SysWrite (Join ''/data'' ''notes.txt'') = None
   \<and> fault fs0 SysOpen (Join ''/data'' ''notes.txt'') = None
   \<and> fault fs0 SysRead (Join ''/data'' ''notes.txt'') = None
   \<and> fault fs0 SysRemove (Join ''/data'' ''notes.txt'') = None
   \<and> fst (ReadFile (snd (WriteFile fs0 ''/data'' ''notes.txt'' ''hello'')) ''/data'' ''notes.txt'') =
        (Some [(''path'', VString (Join ''/data'' ''notes.txt'')), (''bytes'', VInt 5),
               (''content'', VString ''hello'')], None)
   \<and> (\<exists>err. fst (ReadFile (snd (DeleteFile (snd (WriteFile fs0 ''/data'' ''notes.txt'' ''hello''))
                 ''/data'' ''notes.txt'' (Some protectedFiles))) ''/data'' ''notes.txt'') = (None, Some err)
             \<and> IsNotExist err)"
proof -
  have a: "SafeFilename ''notes.txt''" by (simp add: SafeFilename_iff)
  have b: "\<not> index_bool protectedFiles ''notes.txt''" by (simp add: protected_names)
  have c: "fault fs0 SysWrite (Join ''/data'' ''notes.txt'') = None"
          "fault fs0 SysOpen (Join ''/data'' ''notes.txt'') = None"
          "fault fs0 SysRead (Join ''/data'' ''notes.txt'') = None"
          "fault fs0 SysRemove (Join ''/data'' ''notes.txt'') = None"
    by (simp_all add: fs0_def)
  show ?thesis
    using a b c write_read_roundtrip [OF a b c, of "''hello''"] by simp
qed

text \<open>
  C9. For a name that \<open>SafeFilename\<close> accepts, protected or not, \<open>DeleteFile\<close> called
  with a nil map never returns \<open>ErrProtectedFile\<close>: it calls \<open>os.Remove\<close> on the path of
  the file, exactly once; where the call is served the file is gone afterwards, and
  where the file was there the result is the path deleted.
\<close>

theorem delete_nil_protected:
  assumes "SafeFilename name"
  shows "calls (snd (DeleteFile fs dir name None)) = calls fs @ [(SysRemove, Join dir name)]
     \<and> snd (fst (DeleteFile fs dir name None)) \<noteq> Some ErrProtectedFile
     \<and> (fault fs SysRemove (Join dir name) = None \<longrightarrow>
          files (snd (DeleteFile fs dir name None)) (Join dir name) = None)
     \<and> (fault fs SysRemove (Join dir name) = None \<and> files fs (Join dir name) \<noteq> None \<longrightarrow>
          fst (DeleteFile fs dir name None) = (Some [(''deleted'', VString (Join dir name))], None))"
proof -
  obtain r fs1 where r: "os_Remove fs (Join dir name) = (r, fs1)"
    by (cases "os_Remove fs (Join dir name)")
  have d: "DeleteFile fs dir name None =
             (case r of Some err \<Rightarrow> ((None, Some err), fs1)
                      | None \<Rightarrow> ((Some [(''deleted'', VString (Join dir name))], None), fs1))"
    using assms r by (simp add: DeleteFile_def Let_def split: option.splits)
  have c: "calls fs1 = calls fs @ [(SysRemove, Join dir name)]"
    using os_Remove_calls [of fs "Join dir name"] r by simp
  have f: "fault fs SysRemove (Join dir name) = None \<Longrightarrow> files fs1 (Join dir name) = None"
    using os_Remove_files [of fs "Join dir name"] r by simp
  have e: "r = Some err \<Longrightarrow> err \<noteq> ErrProtectedFile" for err
    using os_Remove_error [of fs "Join dir name" err] r by (auto simp: ErrProtectedFile_def)
  have g: "fault fs SysRemove (Join dir name) = None \<Longrightarrow> files fs (Join dir name) \<noteq> None \<Longrightarrow> r = None"
    using r by (auto simp: os_Remove_def)
  show ?thesis using c f e g by (auto simp: d split: option.splits)
qed

text \<open>With a nil map the protected file \<open>lost+found\<close> is removed.\<close>

theorem delete_nil_protected_witness:
  "SafeFilename ''lost+found'' \<and> index_bool protectedFiles ''lost+found''
   \<and> files fs_lost ''/data/lost+found'' = Some ''keep''
   \<and> calls (snd (DeleteFile fs_lost ''/data'' ''lost+found'' None)) = [(SysRemove, ''/data/lost+found'')]
   \<and> files (snd (DeleteFile fs_lost ''/data'' ''lost+found'' None)) ''/data/lost+found'' = None
   \<and> fst (DeleteFile fs_lost ''/data'' ''lost+found'' None) =
        (Some [(''deleted'', VString ''/data/lost+found'')], None)"
proof -
  have h: "SafeFilename ''lost+found''" by (simp add: SafeFilename_iff)
  show ?thesis
    using h delete_nil_protected [OF h, of fs_lost "''/data''"]
    by (simp add: Join_lost fs_lost_def protected_names)
qed

section \<open>Properties of the check runner\<close>

lemma wrap64_id: "- (2 ^ 63) \<le> x \<Longrightarrow> x < 2 ^ 63 \<Longrightarrow> wrap64 x = x"
  by (simp add: wrap64_def)

lemma Since_nonneg:
  assumes "start \<le> finish" and "- (2 ^ 63) \<le> start" and "finish < 2 ^ 63"
  shows "0 \<le> Since start finish"
proof (cases "finish - start < 2 ^ 63")
  case True
  then have "wrap64 (finish - start) = finish - start"
    using assms by (intro wrap64_id) simp_all
  then show ?thesis using assms by (simp add: Since_def Let_def)
next
  case False
  then have "finish > start" by simp
  then show ?thesis
    by (simp add: Since_def Let_def maxDuration_def)
qed

lemma Milliseconds_nonneg: "0 \<le> d \<Longrightarrow> 0 \<le> Milliseconds d"
  by (simp add: Milliseconds_def quo_def pos_imp_zdiv_nonneg_iff)

lemma runCheck_eq_run: "runCheck name timeout fn start finish s = run name timeout fn start finish s"
  by (simp add: runCheck_def run_def)

lemma run_ok:
  "fn s = ((detail, None), s1) \<Longrightarrow>
     run name timeout fn start finish s =
       (JSON 200 [(''status'', VString ''ok''), (''name'', VString name),
                  (''latencyMs'', VInt (Milliseconds (Since start finish))),
                  (''detail'', detailValue detail)], s1)"
  by (simp add: run_def)

lemma run_error:
  "fn s = ((detail, Some e), s1) \<Longrightarrow>
     run name timeout fn start finish s =
       (JSON 503 [(''status'', VString ''error''), (''name'', VString name),
                  (''latencyMs'', VInt (Milliseconds (Since start finish))),
                  (''error'', VString (Error e)),
                  (''detail'', detailValue detail)], s1)"
  by (simp add: run_def)

lemma run_status_iff:
  "field (fst (run name timeout fn start finish s)) ''status'' = Some (VString ''error'')
     \<longleftrightarrow> snd (fst (fn s)) \<noteq> None"
proof -
  obtain detail err s1 where f: "fn s = ((detail, err), s1)"
    by (cases "fn s") auto
  show ?thesis
    by (cases err) (simp_all add: f run_def field_def JSON_def)
qed

lemma run_error_iff:
  "field (fst (run name timeout fn start finish s)) ''error'' \<noteq> None
     \<longleftrightarrow> field (fst (run name timeout fn start finish s)) ''status'' = Some (VString ''error'')"
proof -
  obtain detail err s1 where f: "fn s = ((detail, err), s1)"
    by (cases "fn s") auto
  show ?thesis
    by (cases err) (simp_all add: f run_def field_def JSON_def)
qed

text \<open>
  C5. With a monotonic clock (the reading at the start is not after the reading at the
  end, both \<open>int64\<close>): a probe that returns \<open>(detail, nil)\<close> gives status code 200,
  status "ok", the detail, no error field and a latency of at least 0; a probe that
  returns \<open>(detail, err)\<close> gives status code 503, status "error", the message of the
  error and the detail the probe supplied. The status is "error" exactly when the
  probe returned an error, and the error field is present exactly when the status is
  "error". \<open>runCheck\<close> of main.go writes the same response as \<open>run\<close>.
\<close>

theorem run_envelope:
  assumes clock: "start \<le> finish" "- (2 ^ 63) \<le> start" "finish < 2 ^ 63"
  shows "(fn s = ((detail, None), s1) \<longrightarrow>
            code (fst (run name timeout fn start finish s)) = 200
          \<and> field (fst (run name timeout fn start finish s)) ''status'' = Some (VString ''ok'')
          \<and> field (fst (run name timeout fn start finish s)) ''detail'' = Some (detailValue detail)
          \<and> field (fst (run name timeout fn start finish s)) ''error'' = None
          \<and> (\<exists>l. field (fst (run name timeout fn start finish s)) ''latencyMs'' = Some (VInt l) \<and> 0 \<le> l))
       \<and> (fn s = ((detail, Some e), s1) \<longrightarrow>
            code (fst (run name timeout fn start finish s)) = 503
          \<and> field (fst (run name timeout fn start finish s)) ''status'' = Some (VString ''error'')
          \<and> field (fst (run name timeout fn start finish s)) ''error'' = Some (VString (Error e))
          \<and> field (fst (run name timeout fn start finish s)) ''detail'' = Some (detailValue detail))
       \<and> (field (fst (run name timeout fn start finish s)) ''status'' = Some (VString ''error'')
            \<longleftrightarrow> snd (fst (fn s)) \<noteq> None)
       \<and> (field (fst (run name timeout fn start finish s)) ''error'' \<noteq> None
            \<longleftrightarrow> field (fst (run name timeout fn start finish s)) ''status'' = Some (VString ''error''))
       \<and> runCheck name timeout fn start finish s = run name timeout fn start finish s"
proof -
  have l: "0 \<le> Milliseconds (Since start finish)"
    using clock by (intro Milliseconds_nonneg Since_nonneg)
  have a: "fn s = ((detail, None), s1) \<longrightarrow>
            code (fst (run name timeout fn start finish s)) = 200
          \<and> field (fst (run name timeout fn start finish s)) ''status'' = Some (VString ''ok'')
          \<and> field (fst (run name timeout fn start finish s)) ''detail'' = Some (detailValue detail)
          \<and> field (fst (run name timeout fn start finish s)) ''error'' = None
          \<and> (\<exists>l. field (fst (run name timeout fn start finish s)) ''latencyMs'' = Some (VInt l) \<and> 0 \<le> l)"
    using l by (auto simp: run_ok field_def JSON_def)
  have b: "fn s = ((detail, Some e), s1) \<longrightarrow>
            code (fst (run name timeout fn start finish s)) = 503
          \<and> field (fst (run name timeout fn start finish s)) ''status'' = Some (VString ''error'')
          \<and> field (fst (run name timeout fn start finish s)) ''error'' = Some (VString (Error e))
          \<and> field (fst (run name timeout fn start finish s)) ''detail'' = Some (detailValue detail)"
    by (auto simp: run_error field_def JSON_def)
  show ?thesis
    using a b run_status_iff [of name timeout fn start finish s]
      run_error_iff [of name timeout fn start finish s]
      runCheck_eq_run [of name timeout fn start finish s]
    by blast
qed

text \<open>A probe that succeeds and a probe that fails, 2.499 milliseconds each.\<close>

theorem run_envelope_witness:
  "(1000::int) \<le> 2500007 \<and> - (2 ^ 63) \<le> (1000::int) \<and> (2500007::int) < 2 ^ 63
   \<and> probe_ok 0 = ((Some [(''reachable'', VBool True)], None), 1)
   \<and> fst (run ''database'' 1500000000 probe_ok 1000 2500007 0) =
        JSON 200 [(''status'', VString ''ok''), (''name'', VString ''database''),
                  (''latencyMs'', VInt 2), (''detail'', VMap [(''reachable'', VBool True)])]
   \<and> probe_down 0 = ((Some [(''mode'', VString ''tcp'')], Some (errorString ''connection refused'')), 1)
   \<and> code (fst (run ''database'' 1500000000 probe_down 1000 2500007 0)) = 503
   \<and> field (fst (run ''database'' 1500000000 probe_down 1000 2500007 0)) ''status'' =
        Some (VString ''error'')
   \<and> field (fst (run ''database'' 1500000000 probe_down 1000 2500007 0)) ''error'' =
        Some (VString ''connection refused'')
   \<and> field (fst (run ''database'' 1500000000 probe_down 1000 2500007 0)) ''detail'' =
        Some (VMap [(''mode'', VString ''tcp'')])"
proof -
  have c: "(1000::int) \<le> 2500007" "- (2 ^ 63) \<le> (1000::int)" "(2500007::int) < 2 ^ 63"
    by simp_all
  have a: "probe_ok 0 = ((Some [(''reachable'', VBool True)], None), 1)"
    by (simp add: probe_ok_def)
  have b: "probe_down 0 = ((Some [(''mode'', VString ''tcp'')], Some (errorString ''connection refused'')), 1)"
    by (simp add: probe_down_def)
  have m: "Milliseconds (Since 1000 2500007) = 2" by code_simp
  show ?thesis
    using c a b
      run_envelope [OF c, of probe_ok 0 "Some [(''reachable'', VBool True)]" 1 "''database''"
        1500000000 "errorString ''connection refused''"]
      run_envelope [OF c, of probe_down 0 "Some [(''mode'', VString ''tcp'')]" 1 "''database''"
        1500000000 "errorString ''connection refused''"]
    by (simp add: run_def m detailValue_def)
qed


section \<open>Properties of the self-test\<close>

text \<open>
  C7. Where the write of the temporary file fails, \<open>FilesystemSelfTest\<close> returns the
  error with a detail whose step is "write", and the handler of main.go answers 500
  with the same step; the only call made is the write, so that nothing is read or
  deleted. Where the file system serves the write, the open, the read and the remove,
  the detail has \<open>match\<close> true, an empty \<open>deleteErr\<close>, and the number of bytes of the
  content as \<open>writeBytes\<close> and \<open>readBytes\<close>.
\<close>

theorem selftest_steps:
  "(fault fs SysWrite (Join dir (''selftest-'' @ now @ ''.txt'')) = Some e \<longrightarrow>
      FilesystemSelfTest fs now dir =
        ((Some [(''step'', VString ''write''),
                (''path'', VString (Join dir (''selftest-'' @ now @ ''.txt'')))],
          Some (PathError ''open'' (Join dir (''selftest-'' @ now @ ''.txt'')) e)),
         called SysWrite (Join dir (''selftest-'' @ now @ ''.txt'')) fs)
    \<and> main_selftest dir now fs =
        (JSON 500 [(''step'', VString ''write''),
                   (''error'', VString (Error (PathError ''open'' (Join dir (''selftest-'' @ now @ ''.txt'')) e))),
                   (''path'', VString (Join dir (''selftest-'' @ now @ ''.txt'')))],
         called SysWrite (Join dir (''selftest-'' @ now @ ''.txt'')) fs))
   \<and> (fault fs SysWrite (Join dir (''selftest-'' @ now @ ''.txt'')) = None
      \<and> fault fs SysOpen (Join dir (''selftest-'' @ now @ ''.txt'')) = None
      \<and> fault fs SysRead (Join dir (''selftest-'' @ now @ ''.txt'')) = None
      \<and> fault fs SysRemove (Join dir (''selftest-'' @ now @ ''.txt'')) = None \<longrightarrow>
      fst (FilesystemSelfTest fs now dir) =
        (Some [(''dir'', VString dir),
               (''file'', VString (''selftest-'' @ now @ ''.txt'')),
               (''writeBytes'', VInt (int (length (''selftest at '' @ now)))),
               (''readBytes'', VInt (int (length (''selftest at '' @ now)))),
               (''match'', VBool True),
               (''deleteErr'', VString [])], None)
    \<and> fst (main_selftest dir now fs) =
        JSON 200 [(''dir'', VString dir),
                  (''file'', VString (''selftest-'' @ now @ ''.txt'')),
                  (''writeBytes'', VInt (int (length (''selftest at '' @ now)))),
                  (''readBytes'', VInt (int (length (''selftest at '' @ now)))),
                  (''match'', VBool True),
                  (''deleteErr'', VString [])])"
proof -
  define p where "p = Join dir (''selftest-'' @ now @ ''.txt'')"
  define content where "content = ''selftest at '' @ now"
  define fs1 where "fs1 = (called SysWrite p fs)\<lparr>files := (files fs)(p \<mapsto> content)\<rparr>"
  define fs2 where "fs2 = called SysOpen p fs1"
  define fs3 where "fs3 = called SysRead p fs2"
  have failing: "FilesystemSelfTest fs now dir =
        ((Some [(''step'', VString ''write''), (''path'', VString p)], Some (PathError ''open'' p e)),
         called SysWrite p fs)
    \<and> main_selftest dir now fs =
        (JSON 500 [(''step'', VString ''write''), (''error'', VString (Error (PathError ''open'' p e))),
                   (''path'', VString p)], called SysWrite p fs)"
    if "fault fs SysWrite p = Some e"
    using that
    by (simp add: FilesystemSelfTest_def main_selftest_def Let_def os_WriteFile_fault p_def)
  have passing: "fst (FilesystemSelfTest fs now dir) =
        (Some [(''dir'', VString dir), (''file'', VString (''selftest-'' @ now @ ''.txt'')),
               (''writeBytes'', VInt (int (length content))),
               (''readBytes'', VInt (int (length content))),
               (''match'', VBool True), (''deleteErr'', VString [])], None)
    \<and> fst (main_selftest dir now fs) =
        JSON 200 [(''dir'', VString dir), (''file'', VString (''selftest-'' @ now @ ''.txt'')),
               (''writeBytes'', VInt (int (length content))),
               (''readBytes'', VInt (int (length content))),
               (''match'', VBool True), (''deleteErr'', VString [])]"
    if w: "fault fs SysWrite p = None" and o: "fault fs SysOpen p = None"
      and r: "fault fs SysRead p = None" and d: "fault fs SysRemove p = None"
  proof -
    have W: "os_WriteFile fs p content = (None, fs1)"
      using w by (simp add: os_WriteFile_ok fs1_def)
    have f1: "fault fs1 = fault fs" "files fs1 p = Some content"
      by (simp_all add: fs1_def called_def)
    have O: "os_Open fs1 p = (Inr (p, content), fs2)"
      using o f1 by (simp add: os_Open_ok fs2_def)
    have f2: "fault fs2 = fault fs" "files fs2 p = Some content"
      by (simp_all add: fs2_def called_def f1)
    have R: "io_ReadAll fs2 (p, content) = (Inr content, fs3)"
      using r f2 by (simp add: io_ReadAll_ok fs3_def)
    have f3: "fault fs3 = fault fs" "files fs3 p = Some content"
      by (simp_all add: fs3_def called_def f2)
    have D: "fst (os_Remove fs3 p) = None"
      using d f3 by (simp add: os_Remove_ok)
    obtain fs4 where D': "os_Remove fs3 p = (None, fs4)"
      using D by (cases "os_Remove fs3 p") simp
    show ?thesis
      unfolding FilesystemSelfTest_def main_selftest_def Let_def p_def [symmetric] content_def [symmetric]
      by (simp add: W O R D' errString_def)
  qed
  show ?thesis
    unfolding p_def [symmetric] content_def [symmetric]
    using failing passing by blast
qed

text \<open>The self-test on a read-only file system, and on one that serves every call.\<close>

theorem selftest_steps_witness:
  "fault fs_readonly SysWrite ''/data/selftest-T.txt'' = Some EROFS
   \<and> fst (fst (FilesystemSelfTest fs_readonly ''T'' ''/data'')) =
        Some [(''step'', VString ''write''), (''path'', VString ''/data/selftest-T.txt'')]
   \<and> snd (fst (FilesystemSelfTest fs_readonly ''T'' ''/data'')) =
        Some (PathError ''open'' ''/data/selftest-T.txt'' EROFS)
   \<and> calls (snd (FilesystemSelfTest fs_readonly ''T'' ''/data'')) = [(SysWrite, ''/data/selftest-T.txt'')]
   \<and> fault fs0 SysWrite ''/data/selftest-T.txt'' = None
   \<and> fault fs0 SysOpen ''/data/selftest-T.txt'' = None
   \<and> fault fs0 SysRead ''/data/selftest-T.txt'' = None
   \<and> fault fs0 SysRemove ''/data/selftest-T.txt'' = None
   \<and> fst (FilesystemSelfTest fs0 ''T'' ''/data'') =
        (Some [(''dir'', VString ''/data''), (''file'', VString ''selftest-T.txt''),
               (''writeBytes'', VInt 13), (''readBytes'', VInt 13),
               (''match'', VBool True), (''deleteErr'', VString [])], None)"
  using selftest_steps [of fs_readonly "''/data''" "''T''" EROFS]
    selftest_steps [of fs0 "''/data''" "''T''" EROFS]
  by (simp add: Join_selftest fs_readonly_def fs0_def called_def)

section \<open>Properties of the delete handlers\<close>

text \<open>
  C8 (amended). For the file \<open>lost+found\<close>, \<open>DataDelete\<close> of the monitoring package
  answers 403 with the body whose only field, \<open>error\<close>, is the quoted name followed by
  "is protected and cannot be deleted"; the handler of main.go answers 403 with the
  body whose only field, \<open>error\<close>, is "file is protected and cannot be deleted". Neither
  touches the file system.
\<close>

theorem DataDelete_lost_found:
  "DataDelete dataDir start finish ''lost+found'' fs =
     (JSON 403 [(''error'', VString ([CHR 0x22] @ ''lost+found'' @ [CHR 0x22] @
                   '' is protected and cannot be deleted''))], fs)
   \<and> main_dataDelete dataDir ''lost+found'' fs =
     (JSON 403 [(''error'', VString ''file is protected and cannot be deleted'')], fs)"
  by (simp add: DataDelete_def main_dataDelete_def TrimSpace_lost protected_names main_protected_names
        Quote_lost safeFilename_eq SafeFilename_iff Let_def)

text \<open>Both handlers, on a directory that holds the file.\<close>

theorem DataDelete_lost_found_witness:
  "(''lost+found'' = [] \<or> \<not> safeFilename ''lost+found'') = False
   \<and> code (fst (DataDelete ''/data'' 0 1 ''lost+found'' fs_lost)) = 403
   \<and> field (fst (DataDelete ''/data'' 0 1 ''lost+found'' fs_lost)) ''error'' =
       Some (VString ([CHR 0x22] @ ''lost+found'' @ [CHR 0x22] @ '' is protected and cannot be deleted''))
   \<and> snd (DataDelete ''/data'' 0 1 ''lost+found'' fs_lost) = fs_lost
   \<and> code (fst (main_dataDelete ''/data'' ''lost+found'' fs_lost)) = 403
   \<and> snd (main_dataDelete ''/data'' ''lost+found'' fs_lost) = fs_lost"
  using DataDelete_lost_found [of "''/data''" 0 1 fs_lost]
  by (simp add: JSON_def field_def safeFilename_eq SafeFilename_iff)

text \<open>
  C8 as stated fails for the handler of main.go: its answer to a delete of
  \<open>lost+found\<close> is 403, with another body.
\<close>

theorem main_dataDelete_other_body:
  "code (fst (main_dataDelete ''/data'' ''lost+found'' fs0)) = 403
   \<and> body (fst (main_dataDelete ''/data'' ''lost+found'' fs0)) \<noteq>
       VMap [(''error'', VString ([CHR 0x22] @ ''lost+found'' @ [CHR 0x22] @
                '' is protected and cannot be deleted''))]"
  by (simp add: main_dataDelete_def main_protected_names safeFilename_eq SafeFilename_iff Let_def JSON_def)

section \<open>Properties of the services probe\<close>

text \<open>
  C10. With no URL to probe, \<open>Services\<close> returns a nil error and a detail whose
  \<open>services\<close> map is empty, and so does the probe of main.go.
\<close>

theorem services_no_urls:
  "Services net [] = Some (Some [(''services'', VMap [])], None)
   \<and> main_servicesCheck net [] = Some (Some [(''services'', VMap [])], None)"
  by (simp add: Services_def main_servicesCheck_def)

text \<open>The empty list on a network where nothing but one service answers.\<close>

theorem services_no_urls_witness:
  "Services net_bad [] = Some (Some [(''services'', VMap [])], None)
   \<and> main_servicesCheck net_bad [] = Some (Some [(''services'', VMap [])], None)"
  using services_no_urls [of net_bad] by simp

text \<open>One step of the loop, for a URL that parses.\<close>

lemma Services_loop_step:
  "parses net u \<Longrightarrow>
     Services_loop net (u # us) results allOK =
       Services_loop net us (AList.update u (Services_entry (answer net u)) results)
         (allOK \<and> answered_2xx net u)"
  by (cases "answer net u")
     (auto simp: httpNewRequestWithContext_def Do_def Services_entry_def answered_2xx_def)

lemma Services_loop_parsed:
  assumes "\<forall>u\<in>set urls. parses net u"
  shows "\<exists>res. Services_loop net urls results allOK =
                 Some (res, allOK \<and> (\<forall>u\<in>set urls. answered_2xx net u))
     \<and> fst ` set res = fst ` set results \<union> set urls
     \<and> (\<forall>u. map_of res u =
           (if u \<in> set urls then Some (Services_entry (answer net u)) else map_of results u))"
  using assms
proof (induction urls arbitrary: results allOK)
  case Nil
  then show ?case by simp
next
  case (Cons u us)
  have p: "parses net u" and ps: "\<forall>v\<in>set us. parses net v"
    using Cons.prems by simp_all
  let ?r = "AList.update u (Services_entry (answer net u)) results"
  from Cons.IH [OF ps, of ?r "allOK \<and> answered_2xx net u"]
  obtain res where
    L: "Services_loop net us ?r (allOK \<and> answered_2xx net u) =
          Some (res, (allOK \<and> answered_2xx net u) \<and> (\<forall>v\<in>set us. answered_2xx net v))"
    and K: "fst ` set res = fst ` set ?r \<union> set us"
    and M: "\<forall>v. map_of res v =
           (if v \<in> set us then Some (Services_entry (answer net v)) else map_of ?r v)"
    by blast
  have S: "Services_loop net (u # us) results allOK =
             Some (res, allOK \<and> (\<forall>v\<in>set (u # us). answered_2xx net v))"
    unfolding Services_loop_step [OF p] using L by simp
  have K': "fst ` set res = fst ` set results \<union> set (u # us)"
    using K by (simp add: dom_update)
  have M': "\<forall>v. map_of res v =
           (if v \<in> set (u # us) then Some (Services_entry (answer net v)) else map_of results v)"
    using M by (simp add: update_conv')
  show ?case using S K' M' by blast
qed

text \<open>
  Where every URL parses, \<open>Services\<close> returns: the \<open>services\<close> map has an entry for
  each URL and no other, the entry of a URL is the one its answer calls for, and the
  error is nil exactly when every URL answered with a 2xx status code.
\<close>

lemma Services_parsed:
  assumes "\<forall>u\<in>set urls. parses net u"
  shows "\<exists>res. Services net urls =
            Some (Some [(''services'', VMap res)],
                  if \<forall>u\<in>set urls. answered_2xx net u then None
                  else Some (errorString ''one or more services failing''))
     \<and> fst ` set res = set urls
     \<and> (\<forall>u\<in>set urls. map_of res u = Some (Services_entry (answer net u)))"
proof -
  from Services_loop_parsed [OF assms, of "[]" True]
  obtain res where
    L: "Services_loop net urls [] True = Some (res, \<forall>u\<in>set urls. answered_2xx net u)"
    and K: "fst ` set res = set urls"
    and M: "\<forall>u. map_of res u = (if u \<in> set urls then Some (Services_entry (answer net u)) else None)"
    by auto
  show ?thesis using L K M by (auto simp: Services_def)
qed

text \<open>
  C6. The claim asks, for every list of URLs, for an aggregate error as soon as one
  URL fails, and for a \<open>services\<close> map with an entry for every URL. On a list with a
  URL that does not parse this is not what happens: the error of the request
  constructor is discarded, the nil request is handed to \<open>client.Do\<close>, and the probe
  panics, in the monitoring package and in main.go alike. Here the first URL refuses
  the connection and the second does not parse; nothing is returned.
\<close>

theorem services_unparsed_url_panics:
  "\<not> parses net_bad ''http://bad host''
   \<and> answer net_bad ''http://down.example'' = Inl (errorString ''connection refused'')
   \<and> Services net_bad [''http://down.example'', ''http://bad host''] = None
   \<and> main_servicesCheck net_bad [''http://down.example'', ''http://bad host''] = None"
  by (simp add: net_bad_def Services_def main_servicesCheck_def httpNewRequestWithContext_def Do_def)

text \<open>The scenario of the specification, where both URLs parse.\<close>

lemma services_ok_and_down:
  "Services net_bad [''http://ok.example'', ''http://down.example''] =
     Some (Some [(''services'',
                  VMap [(''http://ok.example'', VMap [(''status'', VString ''ok''), (''code'', VInt 200)]),
                        (''http://down.example'',
                         VMap [(''status'', VString ''error''),
                               (''error'', VString ''connection refused'')])])],
           Some (errorString ''one or more services failing''))"
  by (simp add: net_bad_def Services_def httpNewRequestWithContext_def Do_def)

end
